theory Spec2Isabelle
  imports Main "HOL-Library.Char_ord" "HOL-Library.List_Lexorder" "HOL-Library.Multiset"
begin

section \<open>Strings and arrays of the host language\<close>

text \<open>
  A string of the source is a sequence of code units; here it is a \<^typ>\<open>string\<close>, each
  \<^typ>\<open>char\<close> standing for one code unit (the range of a \<^typ>\<open>char\<close> is 0..255).
  The default comparison of \<^verbatim>\<open>Array.prototype.sort\<close> on strings is the lexicographic
  order on code units: the order of \<open>HOL-Library.List_Lexorder\<close> over
  \<open>HOL-Library.Char_ord\<close>.
\<close>

text \<open>JavaScript truthiness of a \<^verbatim>\<open>string | undefined\<close>: neither undefined nor empty.\<close>

definition truthy :: "string option \<Rightarrow> bool" where
  "truthy v = (case v of None \<Rightarrow> False | Some s \<Rightarrow> s \<noteq> [])"

text \<open>\<^verbatim>\<open>v || d\<close> on a \<^verbatim>\<open>string | undefined\<close> with a string default.\<close>

definition or_else :: "string option \<Rightarrow> string \<Rightarrow> string" where
  "or_else v d = (case v of None \<Rightarrow> d | Some s \<Rightarrow> if s = [] then d else s)"

text \<open>
  \<^verbatim>\<open>String.prototype.trim\<close> strips WhiteSpace and LineTerminator code units from both
  ends; in the range of a \<^typ>\<open>char\<close> these are TAB, LF, VT, FF, CR, SPACE and NBSP.
\<close>

definition isWhiteSpace :: "char \<Rightarrow> bool" where
  "isWhiteSpace c = ((of_char c :: nat) \<in> {9, 10, 11, 12, 13, 32, 160})"

definition trim :: "string \<Rightarrow> string" where
  "trim s = rev (dropWhile isWhiteSpace (rev (dropWhile isWhiteSpace s)))"

text \<open>
  \<^verbatim>\<open>s.split(",")\<close>: the pieces between the separators, empty pieces included;
  the empty string splits into one empty piece.
\<close>

fun split :: "char \<Rightarrow> string \<Rightarrow> string list" where
  "split sep [] = [[]]"
| "split sep (c # cs) =
     (if c = sep then [] # split sep cs
      else (case split sep cs of
              [] \<Rightarrow> [[c]]
            | w # ws \<Rightarrow> (c # w) # ws))"

text \<open>\<^verbatim>\<open>xs.join(",")\<close>.\<close>

fun join :: "string \<Rightarrow> string list \<Rightarrow> string" where
  "join sep [] = []"
| "join sep [x] = x"
| "join sep (x # y # ys) = x @ sep @ join sep (y # ys)"

text \<open>
  A \<^verbatim>\<open>Set\<close> keeps its elements in insertion order; \<^verbatim>\<open>add\<close> of an element already
  present changes nothing. \<^verbatim>\<open>new Set(a)\<close> adds the elements of \<^verbatim>\<open>a\<close> in order and
  \<^verbatim>\<open>Array.from(set)\<close> lists them in insertion order.
\<close>

definition set_add :: "'a list \<Rightarrow> 'a \<Rightarrow> 'a list" where
  "set_add s x = (if x \<in> set s then s else s @ [x])"

definition new_Set :: "'a list \<Rightarrow> 'a list" where
  "new_Set a = foldl set_add [] a"

section \<open>Scope negotiation\<close>

text \<open>
  \<^verbatim>\<open>
  protected mergeScopes(a: string[], b: string[]) {
      const set = new Set(a);
      b.forEach((s) => set.add(s));
      return Array.from(set).sort();
  }
  \<close>
\<close>

definition mergeScopes :: "string list \<Rightarrow> string list \<Rightarrow> string list" where
  "mergeScopes a b = sort (foldl set_add (new_Set a) b)"

text \<open>
  \<^verbatim>\<open>
  scopes.split(",").map((s) => s.trim()).filter((s) => s.length > 0)
  \<close>
\<close>

definition parseScopes :: "string \<Rightarrow> string list" where
  "parseScopes scopes = filter (\<lambda>s. length s > 0) (map trim (split CHR '','' scopes))"

text \<open>
  The requested scopes after the substitution of the defaults
  (\<^verbatim>\<open>authProvider.info.requirements\<close> may be undefined):
  \<^verbatim>\<open>
  if (wantedScopes.length === 0) {
      if (authProvider.info.requirements) {
          wantedScopes = authProvider.info.requirements.default;
      }
  }
  \<close>
\<close>

definition substituteDefaults :: "string list \<Rightarrow> string list option \<Rightarrow> string list" where
  "substituteDefaults wanted requirements =
     (if length wanted = 0 then
        (case requirements of Some dflt \<Rightarrow> dflt | None \<Rightarrow> wanted)
      else wanted)"

text \<open>
  The scope computation of \<^verbatim>\<open>authorize\<close>, from the parsed scopes on:
  \<^verbatim>\<open>
  if (!override) {
      const currentScopes = await this.getCurrentScopes(req.user, authProvider);
      wantedScopes = this.mergeScopes(currentScopes, wantedScopes);
      if (currentScopes.length === 0 && authProvider.info.requirements) {
          wantedScopes = this.mergeScopes(authProvider.info.requirements.default, wantedScopes);
      }
  }
  \<close>
  \<open>negotiate requested current requirements override\<close> takes the parsed request, the
  scopes of the current token and the provider's requirements.
\<close>

definition negotiate ::
  "string list \<Rightarrow> string list \<Rightarrow> string list option \<Rightarrow> bool \<Rightarrow> string list" where
  "negotiate requested current requirements override =
     (let wanted = substituteDefaults requested requirements in
      if \<not> override then
        (let merged = mergeScopes current wanted in
         if length current = 0 \<and> requirements \<noteq> None
         then mergeScopes (the requirements) merged
         else merged)
      else wanted)"

definition computeScopes ::
  "string \<Rightarrow> string list \<Rightarrow> string list option \<Rightarrow> bool \<Rightarrow> string list" where
  "computeScopes scopes current requirements override =
     negotiate (parseScopes scopes) current requirements override"

section \<open>Configuration, collaborators and requests\<close>

record keypair =
  keypair_id :: string
  publicKey :: string

text \<open>
  \<^verbatim>\<open>config.hostUrl.asDashboard().toString()\<close> and \<^verbatim>\<open>config.hostUrl.asSorry(m).toString()\<close>
  are not part of the source file; the configuration carries them as they are used.
\<close>

record config =
  asDashboard :: string
  asSorry :: "string \<Rightarrow> string"
  disableDynamicAuthProviderLogin :: bool
  pki_signing :: keypair
  pki_validating :: "keypair list"

record authProviderInfo =
  info_host :: string
  verified :: bool
  organizationId :: "string option"
  ownerId :: "string option"
  requirements :: "string list option"

record authProviderParams =
  params_host :: string
  builtin :: bool

record authProvider =
  authProviderId :: string
  params :: authProviderParams
  info :: authProviderInfo

record user =
  user_id :: string

record teamMembership =
  role :: string

text \<open>A thrown value, with its \<^verbatim>\<open>message\<close> property when it has one.\<close>

datatype thrown = Thrown "string option"

text \<open>
  The collaborators the handlers call. \<open>getTokenForHost\<close> yields the scopes of the
  token, or \<open>None\<close> when the call throws; \<open>userService_deauthorize\<close> yields the
  thrown value when the call throws.
\<close>

record collaborators =
  hostContextProvider_getAll :: "authProvider list"
  hostContextProvider_get :: "string \<Rightarrow> authProvider option"
  getUserCount :: nat
  findTeamMembership :: "string \<Rightarrow> string \<Rightarrow> teamMembership option"
  getTokenForHost :: "user \<Rightarrow> string \<Rightarrow> string list option"
  userService_deauthorize :: "user \<Rightarrow> string \<Rightarrow> thrown option"

text \<open>
  A request: \<open>isAuthenticated\<close> is \<^verbatim>\<open>req.isAuthenticated()\<close>, \<open>req_user\<close> is
  \<^verbatim>\<open>req.user\<close> when \<^verbatim>\<open>User.is(req.user)\<close> holds, \<open>has_session\<close> is the truthiness of
  \<^verbatim>\<open>req.session\<close>, and each query parameter is \<^verbatim>\<open>req.query.p?.toString()\<close>.
\<close>

record request =
  isAuthenticated :: bool
  req_user :: "user option"
  has_session :: bool
  query_returnTo :: "string option"
  query_host :: "string option"
  query_scopes :: "string option"
  query_override :: "string option"

record authFlow =
  flow_host :: string
  flow_returnTo :: string
  overrideScopes :: "bool option"

text \<open>What a handler does, in the order in which it does it.\<close>

datatype event =
    LogInfo string
  | LogWarn string
  | LogError string
  | GetHostContext string
  | GetAllHostContexts
  | GetUserCount
  | FindTeamMembership string string
  | GetTokenForHost string string
  | IncreaseLoginCounter string string
  | AttachAuthFlow authFlow
  | Deauthorize string string
  | Redirect string
  | Next
  | NextError thrown
  | ProviderAuthorize authProvider "string list option"

section \<open>The authenticator\<close>

definition getSorryUrl :: "config \<Rightarrow> string \<Rightarrow> string" where
  "getSorryUrl cfg message = asSorry cfg message"

definition dquote :: string where
  "dquote = [CHR 0x22]"

definition msg_bad_request :: string where
  "msg_bad_request = ''Bad request: missing parameters.''"

definition msg_no_session :: string where
  "msg_no_session = ''No session found. Please refresh the browser.''"

definition msg_not_authenticated :: string where
  "msg_not_authenticated = ''Not authenticated. Please login.''"

definition msg_login_not_permitted :: "string \<Rightarrow> string" where
  "msg_login_not_permitted host = ''Login with '' @ dquote @ host @ dquote @ '' is not permitted.''"

definition msg_login_not_allowed :: "string \<Rightarrow> string" where
  "msg_login_not_allowed host = ''Login with '' @ host @ '' is not allowed.''"

definition msg_authorization_not_permitted :: "string \<Rightarrow> string" where
  "msg_authorization_not_permitted host =
     ''Authorization with '' @ dquote @ host @ dquote @ '' is not permitted.''"

text \<open>
  \<^verbatim>\<open>
  const hostContext = this.hostContextProvider.get(host);
  return hostContext && hostContext.authProvider;
  \<close>
\<close>

definition getAuthProviderForHost ::
  "collaborators \<Rightarrow> string \<Rightarrow> event list \<times> authProvider option" where
  "getAuthProviderForHost env host = ([GetHostContext host], hostContextProvider_get env host)"

text \<open>\<^verbatim>\<open>host && (await this.getAuthProviderForHost(host))\<close>: no lookup for an empty host.\<close>

definition resolveProvider ::
  "collaborators \<Rightarrow> string \<Rightarrow> event list \<times> authProvider option" where
  "resolveProvider env host =
     (if host \<noteq> [] then getAuthProviderForHost env host else ([], None))"

text \<open>
  \<^verbatim>\<open>
  const hasAnyStaticProviders = this.hostContextProvider
      .getAll()
      .some((hc) => hc.authProvider.params.builtin === true);
  if (hasAnyStaticProviders) {
      return false;
  }
  const noUser = (await this.userDb.getUserCount()) === 0;
  return noUser;
  \<close>
\<close>

definition isInSetupMode :: "collaborators \<Rightarrow> event list \<times> bool" where
  "isInSetupMode env =
     (let hasAnyStaticProviders =
            list_ex (\<lambda>ap. builtin (params ap) = True) (hostContextProvider_getAll env)
      in if hasAnyStaticProviders then ([GetAllHostContexts], False)
         else ([GetAllHostContexts, GetUserCount], getUserCount env = 0))"

definition deny :: "config \<Rightarrow> string \<Rightarrow> event list" where
  "deny cfg message = [LogInfo message, Redirect (getSorryUrl cfg message)]"

definition authenticate :: "config \<Rightarrow> collaborators \<Rightarrow> request \<Rightarrow> event list" where
  "authenticate cfg env req =
     (if isAuthenticated req then
        [LogInfo ''User is already authenticated. Continue.'', Next]
      else
        (let returnTo0 = query_returnTo req;
             stored = (if truthy returnTo0
                       then [LogInfo (''Stored returnTo URL: '' @ the returnTo0)] else []);
             workspaceUrl = asDashboard cfg;
             returnTo = or_else returnTo0 workspaceUrl;
             host = or_else (query_host req) [];
             (lookup, authProvider) = resolveProvider env host
         in stored @ lookup @
            (if host = [] \<or> authProvider = None then
               deny cfg msg_bad_request
             else
               (let ap = the authProvider in
                if truthy (organizationId (info ap)) then
                  deny cfg (msg_login_not_permitted host)
                else if disableDynamicAuthProviderLogin cfg \<and> \<not> builtin (params ap) then
                  [LogInfo ''Auth Provider is not allowed.'',
                   Redirect (getSorryUrl cfg (msg_login_not_allowed (params_host (params ap))))]
                else if \<not> has_session req then
                  [IncreaseLoginCounter ''failed_client'' (info_host (info ap)),
                   LogInfo ''No session.'',
                   Redirect (getSorryUrl cfg msg_no_session)]
                else
                  (let (setup_events, unverified_outside_setup) =
                         (if \<not> verified (info ap)
                          then (let (evs, setup) = isInSetupMode env in (evs, \<not> setup))
                          else ([], False))
                   in setup_events @
                      (if unverified_outside_setup then
                         IncreaseLoginCounter ''failed'' (info_host (info ap)) #
                         deny cfg (msg_login_not_permitted host)
                       else
                         [AttachAuthFlow \<lparr>flow_host = host, flow_returnTo = returnTo,
                                          overrideScopes = None\<rparr>,
                          ProviderAuthorize ap None]))))))"

text \<open>
  \<^verbatim>\<open>getCurrentScopes\<close>: the scopes of the user's token for the provider's host, the empty
  list when there is no token.
\<close>

definition getCurrentScopes ::
  "collaborators \<Rightarrow> user \<Rightarrow> authProvider \<Rightarrow> event list \<times> string list" where
  "getCurrentScopes env u ap =
     ([GetTokenForHost (user_id u) (params_host (params ap))],
      (case getTokenForHost env u (params_host (params ap)) of
         Some scopes \<Rightarrow> scopes
       | None \<Rightarrow> []))"

definition deauthorize :: "config \<Rightarrow> collaborators \<Rightarrow> request \<Rightarrow> event list" where
  "deauthorize cfg env req =
     (if \<not> isAuthenticated req \<or> req_user req = None then
        [LogInfo ''User is not authenticated.'',
         Redirect (getSorryUrl cfg msg_not_authenticated)]
      else
        (let u = the (req_user req);
             returnTo = or_else (query_returnTo req) (asDashboard cfg);
             host = query_host req;
             (lookup, authProvider) = resolveProvider env (or_else host [])
         in lookup @
            (if \<not> truthy host \<or> authProvider = None then
               [LogWarn msg_bad_request, Redirect (getSorryUrl cfg msg_bad_request)]
             else
               (let ap = the authProvider in
                Deauthorize (user_id u) (authProviderId ap) #
                (case userService_deauthorize env u (authProviderId ap) of
                   None \<Rightarrow> [Redirect returnTo]
                 | Some (Thrown message) \<Rightarrow>
                     [NextError (Thrown message),
                      LogError ''Failed to disconnect a provider.'',
                      Redirect (getSorryUrl cfg
                        (''Failed to disconnect a provider: '' @
                         (if truthy message then the message else ''unknown reason'')))])))))"

definition authorize :: "config \<Rightarrow> collaborators \<Rightarrow> request \<Rightarrow> event list" where
  "authorize cfg env req =
     (if \<not> has_session req then
        [LogInfo ''No session.'', Redirect (getSorryUrl cfg msg_no_session)]
      else if \<not> isAuthenticated req \<or> req_user req = None then
        [LogInfo ''User is not authenticated.'',
         Redirect (getSorryUrl cfg msg_not_authenticated)]
      else
        (let u = the (req_user req);
             returnTo = query_returnTo req;
             host = query_host req;
             scopes = or_else (query_scopes req) [];
             override = (query_override req = Some ''true'');
             (lookup, authProvider) = resolveProvider env (or_else host [])
         in lookup @
            (if \<not> truthy returnTo \<or> \<not> truthy host \<or> authProvider = None then
               deny cfg msg_bad_request
             else
               (let ap = the authProvider;
                    h = the host;
                    org = organizationId (info ap);
                    ownerCheck =
                      (if \<not> verified (info ap) \<and> truthy org
                       then [FindTeamMembership (user_id u) (the org)] else [])
                in ownerCheck @
                   (if \<not> verified (info ap) \<and> truthy org \<and>
                       map_option role (findTeamMembership env (user_id u) (the org))
                         \<noteq> Some ''owner'' then
                      deny cfg (msg_authorization_not_permitted h)
                    else if \<not> verified (info ap) \<and> \<not> truthy org \<and>
                            Some (user_id u) \<noteq> ownerId (info ap) then
                      deny cfg (msg_authorization_not_permitted h)
                    else
                      (let memberCheck =
                             (if truthy org
                              then [FindTeamMembership (user_id u) (the org)] else [])
                       in memberCheck @
                          (if truthy org \<and>
                              findTeamMembership env (user_id u) (the org) = None then
                             deny cfg (msg_authorization_not_permitted h)
                           else
                             (let (tokenLookup, currentScopes) =
                                    (if \<not> override then getCurrentScopes env u ap
                                     else ([], []));
                                  wantedScopes =
                                    computeScopes scopes currentScopes
                                      (requirements (info ap)) override
                              in [AttachAuthFlow \<lparr>flow_host = h, flow_returnTo = the returnTo,
                                                   overrideScopes = Some override\<rparr>]
                                 @ tokenLookup @
                                 [LogInfo (''(doAuthorize) wanted scopes ('' @
                                           (if override then ''overriding'' else ''merging'') @
                                           ''): '' @ join '','' wantedScopes),
                                  ProviderAuthorize ap (Some wantedScopes)]))))))))"

section \<open>Key resolution for token verification\<close>

text \<open>
  \<^verbatim>\<open>publicKeysByID\<close> is a plain object built from \<^verbatim>\<open>{}\<close>: reading a property that the
  object does not own falls back on \<^verbatim>\<open>Object.prototype\<close>, whose members are all truthy
  (functions, and the prototype itself under \<^verbatim>\<open>__proto__\<close>). Assigning a string to
  \<^verbatim>\<open>__proto__\<close> goes to the inherited setter, which ignores a value that is not an
  object, so it creates no own property.
\<close>

datatype jsvalue = Undefined | StringValue string | Inherited string

definition object_prototype_names :: "string list" where
  "object_prototype_names =
     [''constructor'', ''__defineGetter__'', ''__defineSetter__'', ''hasOwnProperty'',
      ''__lookupGetter__'', ''__lookupSetter__'', ''isPrototypeOf'',
      ''propertyIsEnumerable'', ''toString'', ''valueOf'', ''__proto__'',
      ''toLocaleString'']"

definition object_set :: "(string \<rightharpoonup> string) \<Rightarrow> string \<Rightarrow> string \<Rightarrow> (string \<rightharpoonup> string)" where
  "object_set obj k v = (if k = ''__proto__'' then obj else obj(k \<mapsto> v))"

definition object_get :: "(string \<rightharpoonup> string) \<Rightarrow> string \<Rightarrow> jsvalue" where
  "object_get obj k =
     (case obj k of
        Some v \<Rightarrow> StringValue v
      | None \<Rightarrow> if k \<in> set object_prototype_names then Inherited k else Undefined)"

definition truthy_value :: "jsvalue \<Rightarrow> bool" where
  "truthy_value v =
     (case v of Undefined \<Rightarrow> False | StringValue s \<Rightarrow> s \<noteq> [] | Inherited _ \<Rightarrow> True)"

datatype js_error = Error string

definition msg_missing_kid :: string where
  "msg_missing_kid = ''JWT token does not contain kid (key id) property.''"

definition msg_unknown_kid :: string where
  "msg_unknown_kid = ''JWT was signed with an unknown key id''"

definition keypairs :: "config \<Rightarrow> keypair list" where
  "keypairs cfg = pki_signing cfg # pki_validating cfg"

definition publicKeysByID :: "config \<Rightarrow> (string \<rightharpoonup> string)" where
  "publicKeysByID cfg =
     foldl (\<lambda>byID kp. object_set byID (keypair_id kp) (publicKey kp)) Map.empty (keypairs cfg)"

text \<open>
  \<^verbatim>\<open>secretOrKeyProvider\<close>. \<^verbatim>\<open>decodeWithoutVerification\<close> is imported from a module that
  is not part of the source: it is a parameter, yielding the \<^verbatim>\<open>kid\<close> of the decoded
  header or the error it throws. \<open>Inr v\<close> is the call \<^verbatim>\<open>done(v)\<close>.
\<close>

definition secretOrKeyProvider ::
  "config \<Rightarrow> (string \<Rightarrow> js_error + string option) \<Rightarrow> string \<Rightarrow> js_error + jsvalue" where
  "secretOrKeyProvider cfg decodeWithoutVerification rawJWT =
     (let byID = publicKeysByID cfg in
      case decodeWithoutVerification rawJWT of
        Inl e \<Rightarrow> Inl e
      | Inr keyID \<Rightarrow>
          if \<not> truthy keyID then Inl (Error msg_missing_kid)
          else if \<not> truthy_value (object_get byID (the keyID)) then Inl (Error msg_unknown_kid)
          else Inr (object_get byID (the keyID)))"

section \<open>The scope negotiation as the specification words it\<close>

text \<open>
  The defaults of a provider (none when it states no requirements), "dedupe(sort(xs))",
  and the negotiation of the specification: the request is replaced by the defaults when
  it is empty; under override the result is the deduplicated sorted request, otherwise the
  deduplicated sorted union of current scopes and request, with the defaults added when
  there are no current scopes.
\<close>

definition defaults_of :: "string list option \<Rightarrow> string list" where
  "defaults_of reqs = (case reqs of None \<Rightarrow> [] | Some dflt \<Rightarrow> dflt)"

definition dedupe_sort :: "string list \<Rightarrow> string list" where
  "dedupe_sort xs = remdups (sort xs)"

definition negotiate_spec ::
  "string list \<Rightarrow> string list \<Rightarrow> string list \<Rightarrow> bool \<Rightarrow> string list" where
  "negotiate_spec requested current defaults override =
     (let requested1 = (if requested = [] then defaults else requested) in
      if override then dedupe_sort requested1
      else if current = [] then dedupe_sort (current @ requested1 @ defaults)
      else dedupe_sort (current @ requested1))"

section \<open>The gates as the specification words them\<close>

text \<open>
  Logging and the login counters are diagnostics; everything else a handler does is a call
  to a collaborator or a response.
\<close>

fun is_diagnostic :: "event \<Rightarrow> bool" where
  "is_diagnostic (LogInfo _) = True"
| "is_diagnostic (LogWarn _) = True"
| "is_diagnostic (LogError _) = True"
| "is_diagnostic (IncreaseLoginCounter _ _) = True"
| "is_diagnostic _ = False"

fun is_delegation :: "event \<Rightarrow> bool" where
  "is_delegation (ProviderAuthorize _ _) = True"
| "is_delegation _ = False"

fun is_flow_attachment :: "event \<Rightarrow> bool" where
  "is_flow_attachment (AttachAuthFlow _) = True"
| "is_flow_attachment _ = False"

definition external :: "event list \<Rightarrow> event list" where
  "external evs = filter (\<lambda>e. \<not> is_diagnostic e) evs"

text \<open>
  A policy check: whether it passes, the message of its denial, and the collaborator calls
  made to evaluate it. Checks are evaluated in order; the first failing check decides, and
  no later check is evaluated.
\<close>

type_synonym policy_check = "bool \<times> string \<times> event list"

fun run_checks :: "policy_check list \<Rightarrow> event list \<times> string option" where
  "run_checks [] = ([], None)"
| "run_checks ((ok, message, calls) # cs) =
     (if ok then (let (evs, r) = run_checks cs in (calls @ evs, r))
      else (calls, Some message))"

text \<open>
  The login gate of the specification, for a provider \<open>ap\<close> that check (1) resolved:
  (2) RejectOrgProvider, (3) RejectDisallowedDynamicProvider, (4) RequireSession,
  (5) RequireTrustOrSetup; the setup mode is consulted for an unverified provider only.
\<close>

definition login_checks ::
  "config \<Rightarrow> collaborators \<Rightarrow> request \<Rightarrow> string \<Rightarrow> authProvider \<Rightarrow> policy_check list" where
  "login_checks cfg env req host ap =
     [(\<not> truthy (organizationId (info ap)), msg_login_not_permitted host, []),
      (builtin (params ap) \<or> \<not> disableDynamicAuthProviderLogin cfg,
         msg_login_not_allowed (params_host (params ap)), []),
      (has_session req, msg_no_session, []),
      (verified (info ap) \<or> snd (isInSetupMode env), msg_login_not_permitted host,
         if verified (info ap) then [] else fst (isInSetupMode env))]"

text \<open>
  Check (1) ValidateParams, then the checks on the resolved provider; the outcome is a
  denial redirect, or AttachFlow followed by Delegate.
\<close>

definition login_gate_spec :: "config \<Rightarrow> collaborators \<Rightarrow> request \<Rightarrow> event list" where
  "login_gate_spec cfg env req =
     (let host = or_else (query_host req) [] in
      if host = [] then [Redirect (getSorryUrl cfg msg_bad_request)]
      else
        GetHostContext host #
        (case hostContextProvider_get env host of
           None \<Rightarrow> [Redirect (getSorryUrl cfg msg_bad_request)]
         | Some ap \<Rightarrow>
             (let (calls, failure) = run_checks (login_checks cfg env req host ap) in
              calls @
              (case failure of
                 Some message \<Rightarrow> [Redirect (getSorryUrl cfg message)]
               | None \<Rightarrow>
                   [AttachAuthFlow \<lparr>flow_host = host,
                      flow_returnTo = or_else (query_returnTo req) (asDashboard cfg),
                      overrideScopes = None\<rparr>,
                    ProviderAuthorize ap None]))))"

text \<open>
  The policy checks of the authorization gate, in the order of the specification:
  owner role for an unverified organization-bound provider, ownership of an unverified
  provider that is not organization-bound, membership for an organization-bound provider.
\<close>

definition organization_bound :: "authProvider \<Rightarrow> bool" where
  "organization_bound ap = truthy (organizationId (info ap))"

definition authorize_checks ::
  "collaborators \<Rightarrow> user \<Rightarrow> string \<Rightarrow> authProvider \<Rightarrow> policy_check list" where
  "authorize_checks env u host ap =
     (let org = (case organizationId (info ap) of Some org \<Rightarrow> org | None \<Rightarrow> []);
          membership = findTeamMembership env (user_id u) org;
          denial = msg_authorization_not_permitted host
      in [(\<not> (\<not> verified (info ap) \<and> organization_bound ap) \<or>
             map_option role membership = Some ''owner'',
           denial,
           if \<not> verified (info ap) \<and> organization_bound ap
           then [FindTeamMembership (user_id u) org] else []),
          (\<not> (\<not> verified (info ap) \<and> \<not> organization_bound ap) \<or>
             ownerId (info ap) = Some (user_id u),
           denial, []),
          (\<not> organization_bound ap \<or> membership \<noteq> None,
           denial,
           if organization_bound ap then [FindTeamMembership (user_id u) org] else [])])"

text \<open>
  What follows the policy checks of the authorization gate: a denial redirect, or the flow
  state, the scope computation and the delegation to the provider.
\<close>

definition authorize_gate_spec ::
  "config \<Rightarrow> collaborators \<Rightarrow> request \<Rightarrow> user \<Rightarrow> string \<Rightarrow> string \<Rightarrow> authProvider \<Rightarrow> event list" where
  "authorize_gate_spec cfg env req u host returnTo ap =
     (let (calls, failure) = run_checks (authorize_checks env u host ap);
          override = (query_override req = Some ''true'');
          current = (if override then ([], []) else getCurrentScopes env u ap)
      in GetHostContext host # calls @
         (case failure of
            Some message \<Rightarrow> [Redirect (getSorryUrl cfg message)]
          | None \<Rightarrow>
              [AttachAuthFlow \<lparr>flow_host = host, flow_returnTo = returnTo,
                 overrideScopes = Some override\<rparr>]
              @ fst current @
              [ProviderAuthorize ap
                 (Some (computeScopes (or_else (query_scopes req) []) (snd current)
                          (requirements (info ap)) override))]))"

text \<open>All five checks of the login gate pass.\<close>

definition login_permitted :: "config \<Rightarrow> collaborators \<Rightarrow> request \<Rightarrow> bool" where
  "login_permitted cfg env req =
     (let host = or_else (query_host req) [] in
      host \<noteq> [] \<and>
      (case hostContextProvider_get env host of
         None \<Rightarrow> False
       | Some ap \<Rightarrow>
           \<not> organization_bound ap \<and>
           (builtin (params ap) \<or> \<not> disableDynamicAuthProviderLogin cfg) \<and>
           has_session req \<and>
           (verified (info ap) \<or> snd (isInSetupMode env))))"

text \<open>All applicable policy checks of the authorization gate pass.\<close>

definition authorize_permitted :: "collaborators \<Rightarrow> user \<Rightarrow> authProvider \<Rightarrow> bool" where
  "authorize_permitted env u ap =
     (let org = (case organizationId (info ap) of Some org \<Rightarrow> org | None \<Rightarrow> []);
          membership = findTeamMembership env (user_id u) org
      in (\<not> verified (info ap) \<and> organization_bound ap \<longrightarrow>
            map_option role membership = Some ''owner'') \<and>
         (\<not> verified (info ap) \<and> \<not> organization_bound ap \<longrightarrow>
            ownerId (info ap) = Some (user_id u)) \<and>
         (organization_bound ap \<longrightarrow> membership \<noteq> None))"

section \<open>Sample configuration and requests\<close>

definition sample_config :: config where
  "sample_config =
     \<lparr>asDashboard = ''https://gitpod.example/workspaces'',
      asSorry = (\<lambda>m. ''https://gitpod.example/sorry#'' @ m),
      disableDynamicAuthProviderLogin = False,
      pki_signing = \<lparr>keypair_id = ''k1'', publicKey = ''PUB1''\<rparr>,
      pki_validating = [\<lparr>keypair_id = ''k0'', publicKey = ''PUB0''\<rparr>]\<rparr>"

definition sample_provider :: authProvider where
  "sample_provider =
     \<lparr>authProviderId = ''Public-GitHub'',
      params = \<lparr>params_host = ''github.com'', builtin = True\<rparr>,
      info = \<lparr>info_host = ''github.com'', verified = True, organizationId = None,
              ownerId = None, requirements = Some [''user:email'']\<rparr>\<rparr>"

definition sample_org_provider :: authProvider where
  "sample_org_provider =
     \<lparr>authProviderId = ''org-gitlab'',
      params = \<lparr>params_host = ''gitlab.example'', builtin = False\<rparr>,
      info = \<lparr>info_host = ''gitlab.example'', verified = False, organizationId = Some ''org1'',
              ownerId = Some ''u1'', requirements = Some [''read_user'']\<rparr>\<rparr>"

definition sample_collaborators :: collaborators where
  "sample_collaborators =
     \<lparr>hostContextProvider_getAll = [sample_provider, sample_org_provider],
      hostContextProvider_get =
        (\<lambda>h. if h = ''github.com'' then Some sample_provider
              else if h = ''gitlab.example'' then Some sample_org_provider else None),
      getUserCount = 1,
      findTeamMembership =
        (\<lambda>uid org. if uid = ''u1'' \<and> org = ''org1'' then Some \<lparr>role = ''owner''\<rparr>
                    else if uid = ''u2'' \<and> org = ''org1'' then Some \<lparr>role = ''member''\<rparr>
                    else None),
      getTokenForHost = (\<lambda>u h. if h = ''github.com'' then Some [''user:email''] else None),
      userService_deauthorize =
        (\<lambda>u p. if p = ''org-gitlab'' then Some (Thrown (Some ''token is in use'')) else None)\<rparr>"

definition sample_request :: request where
  "sample_request =
     \<lparr>isAuthenticated = False, req_user = None, has_session = True,
      query_returnTo = None, query_host = Some ''github.com'',
      query_scopes = None, query_override = None\<rparr>"

definition sample_user_request :: request where
  "sample_user_request =
     \<lparr>isAuthenticated = True, req_user = Some \<lparr>user_id = ''u1''\<rparr>, has_session = True,
      query_returnTo = None, query_host = Some ''github.com'',
      query_scopes = Some ''repo'', query_override = None\<rparr>"

section \<open>Properties of the scope negotiation\<close>

lemma set_foldl_set_add: "set (foldl set_add s xs) = set s \<union> set xs"
  by (induction xs arbitrary: s) (auto simp: set_add_def)

lemma distinct_foldl_set_add: "distinct s \<Longrightarrow> distinct (foldl set_add s xs)"
  by (induction xs arbitrary: s) (auto simp: set_add_def)

lemma set_new_Set: "set (new_Set a) = set a"
  by (simp add: new_Set_def set_foldl_set_add)

lemma distinct_new_Set: "distinct (new_Set a)"
  by (simp add: new_Set_def distinct_foldl_set_add)

lemma mergeScopes_sorted_list_of_set:
  "mergeScopes a b = sorted_list_of_set (set a \<union> set b)"
proof -
  let ?l = "foldl set_add (new_Set a) b"
  have d: "distinct ?l"
    by (rule distinct_foldl_set_add) (rule distinct_new_Set)
  have s: "set ?l = set a \<union> set b"
    by (simp add: set_foldl_set_add set_new_Set)
  have "sort ?l = sort (remdups ?l)"
    using d by (simp add: distinct_remdups_id)
  also have "\<dots> = sorted_list_of_set (set ?l)"
    by (simp add: sorted_list_of_set_sort_remdups)
  finally show ?thesis
    by (simp add: mergeScopes_def s)
qed

lemma dedupe_sort_sorted_list_of_set: "dedupe_sort xs = sorted_list_of_set (set xs)"
proof -
  have "sorted (dedupe_sort xs)" 
    unfolding dedupe_sort_def by simp
  moreover have "distinct (dedupe_sort xs)"
    unfolding dedupe_sort_def by simp
  moreover have "set (dedupe_sort xs) = set xs"
    unfolding dedupe_sort_def by simp
  ultimately show ?thesis
    by (metis sorted_list_of_set.idem_if_sorted_distinct)
qed

lemma substituteDefaults_eq:
  "substituteDefaults requested reqs =
     (if requested = [] then defaults_of reqs else requested)"
  by (simp add: substituteDefaults_def defaults_of_def split: option.splits)

lemma negotiate_merge_eq:
  "negotiate requested current reqs False =
     sorted_list_of_set
       (set current \<union> set (substituteDefaults requested reqs) \<union>
        (if current = [] then set (defaults_of reqs) else {}))"
  by (cases reqs)
     (auto simp: negotiate_def Let_def mergeScopes_sorted_list_of_set defaults_of_def
           intro!: arg_cong[where f=sorted_list_of_set])

lemma negotiate_refines_spec_merge:
  "negotiate requested current reqs False =
     negotiate_spec requested current (defaults_of reqs) False"
  by (simp add: negotiate_merge_eq negotiate_spec_def Let_def dedupe_sort_sorted_list_of_set
        substituteDefaults_eq Un_assoc)

lemma last_dropWhile: "dropWhile P xs \<noteq> [] \<Longrightarrow> last (dropWhile P xs) = last xs"
  by (metis last_appendR takeWhile_dropWhile_id)

lemma trim_ends:
  assumes "trim t \<noteq> []"
  shows "\<not> isWhiteSpace (hd (trim t)) \<and> \<not> isWhiteSpace (last (trim t))"
proof -
  let ?u = "dropWhile isWhiteSpace t"
  let ?v = "dropWhile isWhiteSpace (rev ?u)"
  have v: "?v \<noteq> []" using assms by (simp add: trim_def)
  have u: "?u \<noteq> []"
  proof
    assume "?u = []"
    then have "?v = []" by (simp only: rev.simps dropWhile.simps)
    with v show False by simp
  qed
  have "last (trim t) = hd ?v" using v by (simp add: trim_def last_rev)
  moreover have "\<not> isWhiteSpace (hd ?v)" using v by (rule hd_dropWhile)
  moreover have "hd (trim t) = last ?v" using v by (simp add: trim_def hd_rev)
  moreover have "last ?v = hd ?u" using v u by (simp add: last_dropWhile last_rev)
  moreover have "\<not> isWhiteSpace (hd ?u)" using u by (rule hd_dropWhile)
  ultimately show ?thesis by simp
qed

lemma dropWhile_unchanged: "xs \<noteq> [] \<Longrightarrow> \<not> P (hd xs) \<Longrightarrow> dropWhile P xs = xs"
  by (cases xs) simp_all

lemma trim_trimmed: "trim (trim t) = trim t"
proof (cases "trim t = []")
  case True
  have "trim [] = []" by (simp add: trim_def)
  with True show ?thesis by simp
next
  case False
  note e = trim_ends[OF False]
  have a: "dropWhile isWhiteSpace (trim t) = trim t"
    using False e by (simp add: dropWhile_unchanged)
  have "rev (trim t) \<noteq> []" using False by simp
  moreover have "hd (rev (trim t)) = last (trim t)" using False by (simp add: hd_rev)
  ultimately have b: "dropWhile isWhiteSpace (rev (trim t)) = rev (trim t)"
    using e by (simp add: dropWhile_unchanged)
  show ?thesis
    unfolding trim_def[of "trim t"] a b by simp
qed

lemma parseScopes_entries:
  "s \<in> set (parseScopes scopes) \<Longrightarrow> s \<noteq> [] \<and> trim s = s"
  by (auto simp: parseScopes_def trim_trimmed)


lemma negotiate_permute:
  assumes "mset current = mset current'" and "mset requested = mset requested'"
  shows "negotiate requested current reqs False = negotiate requested' current' reqs False"
proof -
  have sc: "set current = set current'" using assms(1) by (rule mset_eq_setD)
  have sr: "set requested = set requested'" using assms(2) by (rule mset_eq_setD)
  have ec: "(current = []) = (current' = [])" using sc by (metis set_empty)
  have er: "(requested = []) = (requested' = [])" using sr by (metis set_empty)
  have "set (substituteDefaults requested reqs) = set (substituteDefaults requested' reqs)"
    using sr er by (simp add: substituteDefaults_eq)
  then show ?thesis
    using sc ec by (simp add: negotiate_merge_eq)
qed

lemma negotiate_idempotent:
  "negotiate requested (negotiate requested current reqs False) reqs False =
     negotiate requested current reqs False"
proof -
  let ?W = "set (substituteDefaults requested reqs)"
  let ?D = "if current = [] then set (defaults_of reqs) else {}"
  let ?S = "set current \<union> ?W \<union> ?D"
  let ?R = "negotiate requested current reqs False"
  have R: "?R = sorted_list_of_set ?S" by (rule negotiate_merge_eq)
  have fin: "finite ?S" by simp
  have setR: "set ?R = ?S" unfolding R using fin by simp
  show ?thesis
  proof (cases "?R = []")
    case True
    then have "?S = {}" using setR by (metis set_empty)
    then have c: "current = []" and w: "?W = {}" by auto
    from c \<open>?S = {}\<close> have d: "set (defaults_of reqs) = {}" by simp
    have "negotiate requested [] reqs False = sorted_list_of_set {}"
      using w d by (simp add: negotiate_merge_eq)
    with True show ?thesis by simp
  next
    case False
    have "negotiate requested ?R reqs False = sorted_list_of_set (set ?R \<union> ?W)"
      using False by (simp add: negotiate_merge_eq[of requested ?R])
    also have "set ?R \<union> ?W = ?S" unfolding setR by auto
    finally show ?thesis using R by simp
  qed
qed



text \<open>
  Claim C1, as amended. With \<^verbatim>\<open>override == true\<close> the computed scope list is the parsed
  request itself (the provider's defaults when nothing was parsed), in the order of the
  request and with its duplicates, and it does not depend on the current scopes. With
  \<^verbatim>\<open>override == false\<close> the result is sorted and free of duplicates.
\<close>

theorem override_passes_request_unchanged:
  "computeScopes scopes current reqs True =
     (if parseScopes scopes = [] then defaults_of reqs else parseScopes scopes)
   \<and> computeScopes scopes current reqs True = computeScopes scopes current' reqs True
   \<and> sorted (computeScopes scopes current reqs False)
   \<and> distinct (computeScopes scopes current reqs False)"
  by (simp add: computeScopes_def negotiate_merge_eq)
     (simp add: negotiate_def substituteDefaults_eq)

theorem override_passes_request_unchanged_witness:
  "computeScopes ''user, repo,user'' [''email''] (Some [''read'']) True = [''user'', ''repo'', ''user'']
   \<and> computeScopes '' , '' [''email''] (Some [''write'', ''read'']) True = [''write'', ''read'']
   \<and> sorted (computeScopes ''user, repo,user'' [''email''] (Some [''read'']) False)"
proof -
  have p: "parseScopes ''user, repo,user'' = [''user'', ''repo'', ''user'']" by code_simp
  have q: "parseScopes '' , '' = []" by code_simp
  show ?thesis
    using override_passes_request_unchanged[of "''user, repo,user''" "[''email'']" "Some [''read'']"]
          override_passes_request_unchanged[of "'' , ''" "[''email'']" "Some [''write'', ''read'']"]
    by (simp add: p q defaults_of_def)
qed

text \<open>
  Claim C1, as stated, fails: the request \<^verbatim>\<open>scopes=user,repo,user\<close> with
  \<^verbatim>\<open>override == true\<close> is passed on as it is, neither sorted nor deduplicated.
\<close>

theorem override_not_sorted_counterexample:
  "computeScopes ''user,repo,user'' [''email''] None True \<noteq>
     dedupe_sort (parseScopes ''user,repo,user'')
   \<and> \<not> sorted (computeScopes ''user,repo,user'' [''email''] None True)
   \<and> \<not> distinct (computeScopes ''user,repo,user'' [''email''] None True)"
proof -
  have a: "computeScopes ''user,repo,user'' [''email''] None True = [''user'', ''repo'', ''user'']"
    by code_simp
  have b: "dedupe_sort (parseScopes ''user,repo,user'') = [''repo'', ''user'']"
    by code_simp
  have c: "\<not> sorted [''user'', ''repo'', ''user'']"
    by code_simp
  show ?thesis unfolding a b using c by simp
qed

text \<open>
  Claim C2. The parsed entries are trimmed and non-empty; with \<^verbatim>\<open>override == false\<close> the
  computed scopes are the sorted, duplicate-free union of the current scopes and the
  request (the defaults when the request is empty), together with the defaults exactly when
  there are no current scopes. The request \<^verbatim>\<open>repo,user\<close> with current \<^verbatim>\<open>["user"]\<close> and
  defaults \<^verbatim>\<open>["user","email"]\<close> yields \<^verbatim>\<open>["repo","user"]\<close>.
\<close>

theorem merge_scopes_union:
  "(\<forall>s \<in> set (parseScopes scopes). s \<noteq> [] \<and> trim s = s)
   \<and> parseScopes scopes = filter (\<lambda>s. s \<noteq> []) (map trim (split CHR '','' scopes))
   \<and> computeScopes scopes current reqs False =
       negotiate_spec (parseScopes scopes) current (defaults_of reqs) False
   \<and> set (computeScopes scopes current reqs False) =
       set current
       \<union> set (if parseScopes scopes = [] then defaults_of reqs else parseScopes scopes)
       \<union> (if current = [] then set (defaults_of reqs) else {})
   \<and> computeScopes ''repo,user'' [''user''] (Some [''user'', ''email'']) False =
       [''repo'', ''user'']"
proof -
  have a: "\<forall>s \<in> set (parseScopes scopes). s \<noteq> [] \<and> trim s = s"
    using parseScopes_entries by blast
  have b: "parseScopes scopes = filter (\<lambda>s. s \<noteq> []) (map trim (split CHR '','' scopes))"
    by (simp add: parseScopes_def)
  have c: "computeScopes scopes current reqs False =
       negotiate_spec (parseScopes scopes) current (defaults_of reqs) False"
    by (simp add: computeScopes_def negotiate_refines_spec_merge)
  have d: "set (computeScopes scopes current reqs False) =
       set current
       \<union> set (if parseScopes scopes = [] then defaults_of reqs else parseScopes scopes)
       \<union> (if current = [] then set (defaults_of reqs) else {})"
    by (simp add: computeScopes_def negotiate_merge_eq substituteDefaults_eq)
  have e: "computeScopes ''repo,user'' [''user''] (Some [''user'', ''email'']) False =
       [''repo'', ''user'']"
    by code_simp
  from a b c d e show ?thesis by blast
qed

theorem merge_scopes_union_witness:
  "parseScopes '' repo , ,user'' = [''repo'', ''user'']
   \<and> computeScopes '' repo , ,user'' [] (Some [''email'']) False = [''email'', ''repo'', ''user'']"
proof -
  have p: "parseScopes '' repo , ,user'' = [''repo'', ''user'']"
    by code_simp
  have v: "negotiate_spec [''repo'', ''user''] [] (defaults_of (Some [''email''])) False =
             [''email'', ''repo'', ''user'']"
    by code_simp
  have "computeScopes '' repo , ,user'' [] (Some [''email'']) False =
          negotiate_spec (parseScopes '' repo , ,user'') [] (defaults_of (Some [''email''])) False"
    by (rule merge_scopes_union[of "'' repo , ,user''" "[]" "Some [''email'']",
                                THEN conjunct2, THEN conjunct2, THEN conjunct1])
  then show ?thesis
    unfolding p v using p by simp
qed

text \<open>
  Claim C7. With \<^verbatim>\<open>override == false\<close> the negotiation does not depend on the order of
  the current or of the requested scopes, and running it again with its own result as the
  current scopes yields that result again.
\<close>

theorem negotiate_order_independent_idempotent:
  "(mset current = mset current' \<and> mset requested = mset requested' \<longrightarrow>
      negotiate requested current reqs False = negotiate requested' current' reqs False)
   \<and> negotiate requested (negotiate requested current reqs False) reqs False =
       negotiate requested current reqs False"
  using negotiate_permute negotiate_idempotent by blast

theorem negotiate_order_independent_idempotent_witness:
  "mset [''write'', ''api''] = mset [''api'', ''write'']
   \<and> mset [''repo'', ''user''] = mset [''user'', ''repo'']
   \<and> negotiate [''repo'', ''user''] [''write'', ''api''] (Some [''email'']) False =
       negotiate [''user'', ''repo''] [''api'', ''write''] (Some [''email'']) False
   \<and> negotiate [''repo'', ''user''] [''api'', ''repo'', ''user'', ''write''] (Some [''email'']) False =
       [''api'', ''repo'', ''user'', ''write'']"
proof -
  have m: "mset [''write'', ''api''] = mset [''api'', ''write'']
           \<and> mset [''repo'', ''user''] = mset [''user'', ''repo'']"
    by (simp add: add_mset_commute)
  have r: "negotiate [''repo'', ''user''] [''write'', ''api''] (Some [''email'']) False =
             [''api'', ''repo'', ''user'', ''write'']"
    by code_simp
  note t = negotiate_order_independent_idempotent[of "[''write'', ''api'']" "[''api'', ''write'']"
            "[''repo'', ''user'']" "[''user'', ''repo'']" "Some [''email'']"]
  have a: "negotiate [''repo'', ''user''] [''write'', ''api''] (Some [''email'']) False =
       negotiate [''user'', ''repo''] [''api'', ''write''] (Some [''email'']) False"
    using t[THEN conjunct1] m by (rule mp)
  have b: "negotiate [''repo'', ''user''] [''api'', ''repo'', ''user'', ''write''] (Some [''email'']) False =
       [''api'', ''repo'', ''user'', ''write'']"
    using t[THEN conjunct2] unfolding r .
  from m a b show ?thesis by (intro conjI) (erule conjunct1, erule conjunct2, assumption+)
qed

section \<open>Properties of the gates\<close>

lemma login_gate_refines:
  "\<not> isAuthenticated req \<Longrightarrow> external (authenticate cfg env req) = login_gate_spec cfg env req"
  by (auto simp: authenticate_def login_gate_spec_def external_def resolveProvider_def
        getAuthProviderForHost_def deny_def login_checks_def isInSetupMode_def Let_def
        split: option.splits prod.splits)

lemma login_attaches_iff_permitted:
  "\<not> isAuthenticated req \<Longrightarrow>
     list_ex is_flow_attachment (authenticate cfg env req) = login_permitted cfg env req"
  by (auto simp: authenticate_def login_permitted_def resolveProvider_def organization_bound_def
        getAuthProviderForHost_def deny_def isInSetupMode_def Let_def
        split: option.splits prod.splits)

lemma login_delegates_iff_permitted:
  "\<not> isAuthenticated req \<Longrightarrow>
     list_ex is_delegation (authenticate cfg env req) = login_permitted cfg env req"
  by (auto simp: authenticate_def login_permitted_def resolveProvider_def organization_bound_def
        getAuthProviderForHost_def deny_def isInSetupMode_def Let_def
        split: option.splits prod.splits)

lemma authorize_gate_refines:
  assumes "has_session req" "isAuthenticated req" "req_user req = Some u"
    and "query_returnTo req = Some returnTo" "returnTo \<noteq> []"
    and "query_host req = Some host" "host \<noteq> []"
    and "hostContextProvider_get env host = Some ap"
  shows "external (authorize cfg env req) = authorize_gate_spec cfg env req u host returnTo ap"
proof (cases "organizationId (info ap)")
  case None
  then show ?thesis
    using assms
    by (simp add: authorize_def authorize_gate_spec_def external_def resolveProvider_def
        getAuthProviderForHost_def deny_def authorize_checks_def organization_bound_def
        getCurrentScopes_def truthy_def or_else_def Let_def)
next
  case (Some org)
  then show ?thesis
    using assms
    by (cases "findTeamMembership env (user_id u) org")
       (simp_all add: authorize_def authorize_gate_spec_def external_def resolveProvider_def
        getAuthProviderForHost_def deny_def authorize_checks_def organization_bound_def
        getCurrentScopes_def truthy_def or_else_def Let_def)
qed

lemma authorize_gate_spec_delegates:
  "list_ex is_delegation (authorize_gate_spec cfg env req u host returnTo ap) =
     authorize_permitted env u ap"
proof (cases "organizationId (info ap)")
  case None
  then show ?thesis
    by (simp add: authorize_gate_spec_def authorize_checks_def authorize_permitted_def
          organization_bound_def getCurrentScopes_def truthy_def Let_def)
next
  case (Some org)
  then show ?thesis
    by (cases "findTeamMembership env (user_id u) org")
       (auto simp: authorize_gate_spec_def authorize_checks_def authorize_permitted_def
          organization_bound_def getCurrentScopes_def truthy_def Let_def)
qed

lemma authorize_gate_spec_denies:
  "\<not> authorize_permitted env u ap \<Longrightarrow>
     last (authorize_gate_spec cfg env req u host returnTo ap) =
       Redirect (getSorryUrl cfg (msg_authorization_not_permitted host))"
proof (cases "organizationId (info ap)")
  case None
  assume "\<not> authorize_permitted env u ap"
  with None show ?thesis
    by (simp add: authorize_gate_spec_def authorize_checks_def authorize_permitted_def
          organization_bound_def getCurrentScopes_def truthy_def Let_def)
next
  case (Some org)
  assume "\<not> authorize_permitted env u ap"
  with Some show ?thesis
    by (cases "findTeamMembership env (user_id u) org")
       (auto simp: authorize_gate_spec_def authorize_checks_def authorize_permitted_def
          organization_bound_def getCurrentScopes_def truthy_def Let_def)
qed

lemma list_ex_external_delegation:
  "list_ex is_delegation (external evs) = list_ex is_delegation evs"
proof (induction evs)
  case Nil
  show ?case by (simp add: external_def)
next
  case (Cons e evs)
  then show ?case by (cases e) (simp_all add: external_def)
qed

text \<open>
  Claim C3. For a request that passes the preconditions of the authorization gate, the
  handler's calls and response are those of the policy checks run in the order (1) owner
  role for an unverified organization-bound provider, (2) ownership for an unverified
  provider that is not organization-bound, (3) membership for an organization-bound
  provider: the first failing check ends the flow with the denial redirect, and the flow
  state, the scope computation and the delegation to the provider follow exactly when all
  applicable checks pass.
\<close>

theorem authorize_policy_checks_in_order:
  assumes "has_session req" "isAuthenticated req" "req_user req = Some u"
    and "query_returnTo req = Some returnTo" "returnTo \<noteq> []"
    and "query_host req = Some host" "host \<noteq> []"
    and "hostContextProvider_get env host = Some ap"
  shows "external (authorize cfg env req) = authorize_gate_spec cfg env req u host returnTo ap
    \<and> list_ex is_delegation (authorize cfg env req) = authorize_permitted env u ap
    \<and> (\<not> authorize_permitted env u ap \<longrightarrow>
          last (external (authorize cfg env req)) =
            Redirect (getSorryUrl cfg (msg_authorization_not_permitted host)))"
proof -
  have r: "external (authorize cfg env req) = authorize_gate_spec cfg env req u host returnTo ap"
    using assms by (rule authorize_gate_refines)
  have d: "list_ex is_delegation (authorize cfg env req) = authorize_permitted env u ap"
    using list_ex_external_delegation[of "authorize cfg env req"]
    unfolding r by (simp add: authorize_gate_spec_delegates)
  have n: "\<not> authorize_permitted env u ap \<longrightarrow>
          last (external (authorize cfg env req)) =
            Redirect (getSorryUrl cfg (msg_authorization_not_permitted host))"
    unfolding r by (simp add: authorize_gate_spec_denies)
  from r d n show ?thesis by (intro conjI)
qed

theorem authorize_policy_checks_in_order_witness:
  "external (authorize sample_config sample_collaborators
      (sample_user_request\<lparr>req_user := Some \<lparr>user_id = ''u2''\<rparr>,
         query_host := Some ''gitlab.example'', query_returnTo := Some ''/settings''\<rparr>)) =
     [GetHostContext ''gitlab.example'', FindTeamMembership ''u2'' ''org1'',
      Redirect (getSorryUrl sample_config (msg_authorization_not_permitted ''gitlab.example''))]
   \<and> \<not> authorize_permitted sample_collaborators \<lparr>user_id = ''u2''\<rparr> sample_org_provider
   \<and> \<not> list_ex is_delegation (authorize sample_config sample_collaborators
      (sample_user_request\<lparr>req_user := Some \<lparr>user_id = ''u2''\<rparr>,
         query_host := Some ''gitlab.example'', query_returnTo := Some ''/settings''\<rparr>))"
proof -
  let ?req = "sample_user_request\<lparr>req_user := Some \<lparr>user_id = ''u2''\<rparr>,
         query_host := Some ''gitlab.example'', query_returnTo := Some ''/settings''\<rparr>"
  have h1: "has_session ?req" by (simp add: sample_user_request_def)
  have h2: "isAuthenticated ?req" by (simp add: sample_user_request_def)
  have h3: "req_user ?req = Some \<lparr>user_id = ''u2''\<rparr>" by (simp add: sample_user_request_def)
  have h4: "query_returnTo ?req = Some ''/settings''" by (simp add: sample_user_request_def)
  have h5: "''/settings'' \<noteq> []" by simp
  have h6: "query_host ?req = Some ''gitlab.example''" by (simp add: sample_user_request_def)
  have h7: "''gitlab.example'' \<noteq> []" by simp
  have h8: "hostContextProvider_get sample_collaborators ''gitlab.example'' = Some sample_org_provider"
    by (simp add: sample_collaborators_def)
  have p: "\<not> authorize_permitted sample_collaborators \<lparr>user_id = ''u2''\<rparr> sample_org_provider"
    by (simp add: authorize_permitted_def sample_collaborators_def sample_org_provider_def
          organization_bound_def truthy_def)
  have s: "authorize_gate_spec sample_config sample_collaborators ?req \<lparr>user_id = ''u2''\<rparr>
             ''gitlab.example'' ''/settings'' sample_org_provider =
     [GetHostContext ''gitlab.example'', FindTeamMembership ''u2'' ''org1'',
      Redirect (getSorryUrl sample_config (msg_authorization_not_permitted ''gitlab.example''))]"
    by (simp add: authorize_gate_spec_def authorize_checks_def sample_collaborators_def
          sample_org_provider_def organization_bound_def truthy_def Let_def)
  note t = authorize_policy_checks_in_order[OF h1 h2 h3 h4 h5 h6 h7 h8, of sample_config]
  show ?thesis
    using t p unfolding s by simp
qed

text \<open>
  Claim C4. For a login request that is not yet authenticated, the handler's calls and
  response are those of the login gate of the specification: the five checks in order, a
  denial redirect at the first failure, and the flow state with host and returnTo attached
  and the provider's authorize entry point invoked exactly when all five pass.
\<close>

theorem login_gate_checks_in_order:
  assumes "\<not> isAuthenticated req"
  shows "external (authenticate cfg env req) = login_gate_spec cfg env req
    \<and> list_ex is_flow_attachment (authenticate cfg env req) = login_permitted cfg env req
    \<and> list_ex is_delegation (authenticate cfg env req) = login_permitted cfg env req"
  using assms
  by (simp add: login_gate_refines login_attaches_iff_permitted login_delegates_iff_permitted)

theorem login_gate_checks_in_order_witness:
  "\<not> isAuthenticated sample_request
   \<and> external (authenticate sample_config sample_collaborators sample_request) =
       [GetHostContext ''github.com'',
        AttachAuthFlow \<lparr>flow_host = ''github.com'',
          flow_returnTo = ''https://gitpod.example/workspaces'', overrideScopes = None\<rparr>,
        ProviderAuthorize sample_provider None]
   \<and> external (authenticate sample_config sample_collaborators
        (sample_request\<lparr>query_host := Some ''gitlab.example'', has_session := False\<rparr>)) =
       [GetHostContext ''gitlab.example'',
        Redirect (getSorryUrl sample_config (msg_login_not_permitted ''gitlab.example''))]"
proof -
  let ?req = "sample_request\<lparr>query_host := Some ''gitlab.example'', has_session := False\<rparr>"
  have h: "\<not> isAuthenticated sample_request" by (simp add: sample_request_def)
  have h': "\<not> isAuthenticated ?req" by (simp add: sample_request_def)
  have s: "login_gate_spec sample_config sample_collaborators sample_request =
       [GetHostContext ''github.com'',
        AttachAuthFlow \<lparr>flow_host = ''github.com'',
          flow_returnTo = ''https://gitpod.example/workspaces'', overrideScopes = None\<rparr>,
        ProviderAuthorize sample_provider None]"
    by (simp add: login_gate_spec_def login_checks_def sample_request_def sample_config_def
          sample_collaborators_def sample_provider_def or_else_def truthy_def Let_def)
  have s': "login_gate_spec sample_config sample_collaborators ?req =
       [GetHostContext ''gitlab.example'',
        Redirect (getSorryUrl sample_config (msg_login_not_permitted ''gitlab.example''))]"
    by (simp add: login_gate_spec_def login_checks_def sample_request_def
          sample_collaborators_def sample_org_provider_def or_else_def truthy_def Let_def)
  show ?thesis
    using h login_gate_checks_in_order[OF h, of sample_config sample_collaborators]
          login_gate_checks_in_order[OF h', of sample_config sample_collaborators]
    unfolding s s' by simp
qed

text \<open>
  Claim C6. The setup mode holds exactly when no builtin provider is registered and the
  user store counts zero users; one more builtin provider or one more user makes it false.
\<close>

theorem setup_mode_iff:
  "snd (isInSetupMode env) =
     (filter (\<lambda>ap. builtin (params ap)) (hostContextProvider_getAll env) = [] \<and>
      getUserCount env = 0)
   \<and> (builtin (params ap) \<longrightarrow>
        \<not> snd (isInSetupMode
                 (env\<lparr>hostContextProvider_getAll := ap # hostContextProvider_getAll env\<rparr>)))
   \<and> \<not> snd (isInSetupMode (env\<lparr>getUserCount := Suc (getUserCount env)\<rparr>))"
  by (auto simp: isInSetupMode_def Let_def list_ex_iff filter_empty_conv)

theorem setup_mode_iff_witness:
  "snd (isInSetupMode (sample_collaborators\<lparr>hostContextProvider_getAll := [sample_org_provider],
                         getUserCount := 0\<rparr>))
   \<and> builtin (params sample_provider)
   \<and> \<not> snd (isInSetupMode (sample_collaborators\<lparr>hostContextProvider_getAll :=
                         [sample_provider, sample_org_provider], getUserCount := 0\<rparr>))
   \<and> \<not> snd (isInSetupMode (sample_collaborators\<lparr>hostContextProvider_getAll := [sample_org_provider],
                         getUserCount := Suc 0\<rparr>))"
proof -
  let ?env = "sample_collaborators\<lparr>hostContextProvider_getAll := [sample_org_provider],
                         getUserCount := 0\<rparr>"
  have b: "builtin (params sample_provider)" by (simp add: sample_provider_def)
  have f: "filter (\<lambda>ap. builtin (params ap)) (hostContextProvider_getAll ?env) = [] \<and>
      getUserCount ?env = 0"
    by (simp add: sample_org_provider_def)
  note t = setup_mode_iff[of ?env sample_provider]
  have 1: "snd (isInSetupMode ?env)"
    using t[THEN conjunct1] f by simp
  have 2: "\<not> snd (isInSetupMode (sample_collaborators\<lparr>hostContextProvider_getAll :=
                         [sample_provider, sample_org_provider], getUserCount := 0\<rparr>))"
    using t[THEN conjunct2, THEN conjunct1] b by (simp add: sample_collaborators_def)
  have 3: "\<not> snd (isInSetupMode (sample_collaborators\<lparr>hostContextProvider_getAll := [sample_org_provider],
                         getUserCount := Suc 0\<rparr>))"
    using t[THEN conjunct2, THEN conjunct2] by (simp add: sample_collaborators_def)
  from 1 b 2 3 show ?thesis by (intro conjI)
qed

text \<open>
  Claim C10. A login request of an authenticated session is passed on at once: the
  handler logs and calls \<^verbatim>\<open>next()\<close>, whatever the host parameter is, without any call to
  the provider registry or the user store, without a redirect and without writing a flow
  state.
\<close>

theorem authenticated_login_passes_on:
  assumes "isAuthenticated req"
  shows "authenticate cfg env req = [LogInfo ''User is already authenticated. Continue.'', Next]
    \<and> external (authenticate cfg env req) = [Next]"
  using assms by (simp add: authenticate_def external_def)

theorem authenticated_login_passes_on_witness:
  "isAuthenticated (sample_user_request\<lparr>query_host := None\<rparr>)
   \<and> external (authenticate sample_config sample_collaborators
        (sample_user_request\<lparr>query_host := None\<rparr>)) = [Next]
   \<and> external (authenticate sample_config sample_collaborators
        (sample_user_request\<lparr>query_host := Some ''unknown.example''\<rparr>)) = [Next]"
proof -
  have h: "isAuthenticated (sample_user_request\<lparr>query_host := None\<rparr>)"
    by (simp add: sample_user_request_def)
  have h': "isAuthenticated (sample_user_request\<lparr>query_host := Some ''unknown.example''\<rparr>)"
    by (simp add: sample_user_request_def)
  from h authenticated_login_passes_on[OF h, of sample_config sample_collaborators, THEN conjunct2]
       authenticated_login_passes_on[OF h', of sample_config sample_collaborators, THEN conjunct2]
  show ?thesis by (intro conjI)
qed

section \<open>Properties of the key resolution\<close>

lemma foldl_object_set_other:
  "kid \<notin> set (map keypair_id ks) \<Longrightarrow>
     foldl (\<lambda>byID kp. object_set byID (keypair_id kp) (publicKey kp)) obj ks kid = obj kid"
  by (induction ks arbitrary: obj) (auto simp: object_set_def)

lemma publicKeysByID_unknown:
  "kid \<notin> set (map keypair_id (keypairs cfg)) \<Longrightarrow> publicKeysByID cfg kid = None"
  by (simp add: publicKeysByID_def foldl_object_set_other)

lemma secretOrKeyProvider_missing_kid:
  "decode rawJWT = Inr None \<Longrightarrow>
     secretOrKeyProvider cfg decode rawJWT = Inl (Error msg_missing_kid)"
  by (simp add: secretOrKeyProvider_def truthy_def)

lemma secretOrKeyProvider_unknown_kid:
  assumes "decode rawJWT = Inr (Some kid)" and "kid \<noteq> []"
    and "kid \<notin> set (map keypair_id (keypairs cfg))"
    and "kid \<notin> set object_prototype_names"
  shows "secretOrKeyProvider cfg decode rawJWT = Inl (Error msg_unknown_kid)"
  using assms publicKeysByID_unknown[OF assms(3)]
  by (simp add: secretOrKeyProvider_def truthy_def truthy_value_def object_get_def)

lemma secretOrKeyProvider_inherited_kid:
  assumes "decode rawJWT = Inr (Some kid)"
    and "kid \<notin> set (map keypair_id (keypairs cfg))"
    and "kid \<in> set object_prototype_names"
  shows "secretOrKeyProvider cfg decode rawJWT = Inr (Inherited kid)"
proof -
  have "kid \<noteq> []" using assms(3) by (auto simp: object_prototype_names_def)
  then show ?thesis
    using assms publicKeysByID_unknown[OF assms(2)]
    by (simp add: secretOrKeyProvider_def truthy_def truthy_value_def object_get_def)
qed

text \<open>
  Claim C5. The key ring of the sample configuration holds the key ids \<^verbatim>\<open>k1\<close> and \<^verbatim>\<open>k0\<close>.
  For a token whose header carries the key id \<^verbatim>\<open>constructor\<close>, which is not in the key
  ring, the key provider does not fail with the unknown-key-id error: the lookup in the
  plain object finds the inherited member of that name, and that value is handed to the
  signature verification as the key.
\<close>

theorem unknown_kid_constructor_resolves:
  "map keypair_id (keypairs sample_config) = [''k1'', ''k0'']
   \<and> secretOrKeyProvider sample_config (\<lambda>raw. Inr (Some ''constructor'')) ''header.payload.signature'' =
       Inr (Inherited ''constructor'')
   \<and> secretOrKeyProvider sample_config (\<lambda>raw. Inr (Some ''constructor'')) ''header.payload.signature'' \<noteq>
       Inl (Error msg_unknown_kid)"
proof -
  have k: "map keypair_id (keypairs sample_config) = [''k1'', ''k0'']"
    by (simp add: keypairs_def sample_config_def)
  have n: "''constructor'' \<notin> set (map keypair_id (keypairs sample_config))"
    unfolding k by simp
  have p: "''constructor'' \<in> set object_prototype_names"
    by (simp add: object_prototype_names_def)
  have "secretOrKeyProvider sample_config (\<lambda>raw. Inr (Some ''constructor'')) ''header.payload.signature'' =
       Inr (Inherited ''constructor'')"
    by (rule secretOrKeyProvider_inherited_kid[OF _ n p]) simp
  with k show ?thesis by simp
qed

section \<open>Properties of the deauthorization and of the returnTo parameter\<close>

lemma deauthorize_unauthenticated:
  "\<not> isAuthenticated req \<or> req_user req = None \<Longrightarrow>
     deauthorize cfg env req =
       [LogInfo ''User is not authenticated.'',
        Redirect (getSorryUrl cfg (''Not authenticated'' @ ''. Please login.''))]"
  by (auto simp: deauthorize_def msg_not_authenticated_def)

lemma deauthorize_success:
  assumes "isAuthenticated req" "req_user req = Some u"
    and "query_host req = Some host" "host \<noteq> []"
    and "hostContextProvider_get env host = Some ap"
    and "userService_deauthorize env u (authProviderId ap) = None"
  shows "external (deauthorize cfg env req) =
       [GetHostContext host, Deauthorize (user_id u) (authProviderId ap),
        Redirect (or_else (query_returnTo req) (asDashboard cfg))]"
  using assms
  by (simp add: deauthorize_def external_def resolveProvider_def getAuthProviderForHost_def
        truthy_def or_else_def Let_def)

lemma deauthorize_failure:
  assumes "isAuthenticated req" "req_user req = Some u"
    and "query_host req = Some host" "host \<noteq> []"
    and "hostContextProvider_get env host = Some ap"
    and "userService_deauthorize env u (authProviderId ap) = Some (Thrown message)"
  shows "external (deauthorize cfg env req) =
       [GetHostContext host, Deauthorize (user_id u) (authProviderId ap),
        NextError (Thrown message),
        Redirect (getSorryUrl cfg
          (''Failed to disconnect a provider: '' @
           (if truthy message then the message else ''unknown reason'')))]"
  using assms
  by (simp add: deauthorize_def external_def resolveProvider_def getAuthProviderForHost_def
        truthy_def or_else_def Let_def)

text \<open>
  Claim C9. Without an authenticated session the deauthorization ends with the denial
  redirect whose message starts with "Not authenticated". With one, and a provider resolved
  for the host: when the external deauthorize call succeeds the response is a redirect to
  returnTo (the dashboard by default); when it throws, the thrown error is passed to
  \<^verbatim>\<open>next\<close> and the response is a denial redirect whose message ends with the error's
  message text ("unknown reason" when the error has none).
\<close>

theorem deauthorize_outcomes:
  "(\<not> isAuthenticated req \<or> req_user req = None \<longrightarrow>
      deauthorize cfg env req =
        [LogInfo ''User is not authenticated.'',
         Redirect (getSorryUrl cfg (''Not authenticated'' @ ''. Please login.''))])
   \<and> (isAuthenticated req \<and> req_user req = Some u \<and> query_host req = Some host \<and> host \<noteq> [] \<and>
       hostContextProvider_get env host = Some ap \<longrightarrow>
        (userService_deauthorize env u (authProviderId ap) = None \<longrightarrow>
           external (deauthorize cfg env req) =
             [GetHostContext host, Deauthorize (user_id u) (authProviderId ap),
              Redirect (or_else (query_returnTo req) (asDashboard cfg))])
        \<and> (userService_deauthorize env u (authProviderId ap) = Some (Thrown message) \<longrightarrow>
           external (deauthorize cfg env req) =
             [GetHostContext host, Deauthorize (user_id u) (authProviderId ap),
              NextError (Thrown message),
              Redirect (getSorryUrl cfg
                (''Failed to disconnect a provider: '' @
                 (if truthy message then the message else ''unknown reason'')))]))"
  using deauthorize_unauthenticated[of req cfg env]
        deauthorize_success[of req u host env ap cfg]
        deauthorize_failure[of req u host env ap message cfg]
  by blast

theorem deauthorize_outcomes_witness:
  "deauthorize sample_config sample_collaborators sample_request =
     [LogInfo ''User is not authenticated.'',
      Redirect (getSorryUrl sample_config (''Not authenticated'' @ ''. Please login.''))]
   \<and> external (deauthorize sample_config sample_collaborators sample_user_request) =
       [GetHostContext ''github.com'', Deauthorize ''u1'' ''Public-GitHub'',
        Redirect ''https://gitpod.example/workspaces'']
   \<and> external (deauthorize sample_config sample_collaborators
         (sample_user_request\<lparr>query_host := Some ''gitlab.example''\<rparr>)) =
       [GetHostContext ''gitlab.example'', Deauthorize ''u1'' ''org-gitlab'',
        NextError (Thrown (Some ''token is in use'')),
        Redirect (getSorryUrl sample_config
          (''Failed to disconnect a provider: '' @ ''token is in use''))]"
proof -
  let ?u = "\<lparr>user_id = ''u1''\<rparr>"
  let ?req = "sample_user_request\<lparr>query_host := Some ''gitlab.example''\<rparr>"
  have a: "\<not> isAuthenticated sample_request \<or> req_user sample_request = None"
    by (simp add: sample_request_def)
  have b: "isAuthenticated sample_user_request \<and> req_user sample_user_request = Some ?u \<and>
           query_host sample_user_request = Some ''github.com'' \<and> ''github.com'' \<noteq> [] \<and>
           hostContextProvider_get sample_collaborators ''github.com'' = Some sample_provider"
    by (simp add: sample_user_request_def sample_collaborators_def)
  have b': "userService_deauthorize sample_collaborators ?u (authProviderId sample_provider) = None"
    by (simp add: sample_collaborators_def sample_provider_def)
  have c: "isAuthenticated ?req \<and> req_user ?req = Some ?u \<and>
           query_host ?req = Some ''gitlab.example'' \<and> ''gitlab.example'' \<noteq> [] \<and>
           hostContextProvider_get sample_collaborators ''gitlab.example'' = Some sample_org_provider"
    by (simp add: sample_user_request_def sample_collaborators_def)
  have c': "userService_deauthorize sample_collaborators ?u (authProviderId sample_org_provider) =
              Some (Thrown (Some ''token is in use''))"
    by (simp add: sample_collaborators_def sample_org_provider_def)
  have r1: "deauthorize sample_config sample_collaborators sample_request =
     [LogInfo ''User is not authenticated.'',
      Redirect (getSorryUrl sample_config (''Not authenticated'' @ ''. Please login.''))]"
    using deauthorize_outcomes[of sample_request sample_config sample_collaborators,
            THEN conjunct1] a by (rule mp)
  have r2: "external (deauthorize sample_config sample_collaborators sample_user_request) =
       [GetHostContext ''github.com'', Deauthorize (user_id ?u) (authProviderId sample_provider),
        Redirect (or_else (query_returnTo sample_user_request) (asDashboard sample_config))]"
    using deauthorize_outcomes[of sample_user_request sample_config sample_collaborators ?u
            "''github.com''" sample_provider, THEN conjunct2, THEN mp, OF b, THEN conjunct1] b'
    by (rule mp)
  have r3: "external (deauthorize sample_config sample_collaborators ?req) =
       [GetHostContext ''gitlab.example'',
        Deauthorize (user_id ?u) (authProviderId sample_org_provider),
        NextError (Thrown (Some ''token is in use'')),
        Redirect (getSorryUrl sample_config
          (''Failed to disconnect a provider: '' @
           (if truthy (Some ''token is in use'') then the (Some ''token is in use'')
            else ''unknown reason'')))]"
    using deauthorize_outcomes[of ?req sample_config sample_collaborators ?u
            "''gitlab.example''" sample_org_provider "Some ''token is in use''",
            THEN conjunct2, THEN mp, OF c, THEN conjunct2] c'
    by (rule mp)
  have q2: "external (deauthorize sample_config sample_collaborators sample_user_request) =
       [GetHostContext ''github.com'', Deauthorize ''u1'' ''Public-GitHub'',
        Redirect ''https://gitpod.example/workspaces'']"
    using r2 by (simp add: sample_provider_def sample_user_request_def sample_config_def or_else_def)
  have q3: "external (deauthorize sample_config sample_collaborators ?req) =
       [GetHostContext ''gitlab.example'', Deauthorize ''u1'' ''org-gitlab'',
        NextError (Thrown (Some ''token is in use'')),
        Redirect (getSorryUrl sample_config
          (''Failed to disconnect a provider: '' @ ''token is in use''))]"
    using r3 by (simp add: sample_org_provider_def truthy_def)
  from r1 q2 q3 show ?thesis by (intro conjI)
qed

lemma or_else_default: "\<not> truthy v \<Longrightarrow> or_else v d = d"
  by (simp add: truthy_def or_else_def split: option.splits)

lemma login_default_returnTo:
  assumes "\<not> isAuthenticated req" "login_permitted cfg env req"
    and "\<not> truthy (query_returnTo req)"
  shows "AttachAuthFlow \<lparr>flow_host = or_else (query_host req) [],
            flow_returnTo = asDashboard cfg, overrideScopes = None\<rparr>
         \<in> set (authenticate cfg env req)"
proof -
  let ?host = "or_else (query_host req) []"
  obtain ap where h: "?host \<noteq> []" and g: "hostContextProvider_get env ?host = Some ap"
    and o: "\<not> truthy (organizationId (info ap))"
    and b: "builtin (params ap) \<or> \<not> disableDynamicAuthProviderLogin cfg"
    and s: "has_session req"
    and v: "verified (info ap) \<or> snd (isInSetupMode env)"
    using assms(2)
    by (auto simp: login_permitted_def organization_bound_def Let_def split: option.splits)
  have r: "or_else (query_returnTo req) (asDashboard cfg) = asDashboard cfg"
    using assms(3) by (rule or_else_default)
  show ?thesis
  proof (cases "verified (info ap)")
    case True
    then show ?thesis
      using assms(1,3) h g o b s r
      by (auto simp: authenticate_def resolveProvider_def getAuthProviderForHost_def Let_def)
  next
    case False
    with v have "snd (isInSetupMode env)" by simp
    then show ?thesis
      using False assms(1,3) h g o b s r
      by (cases "isInSetupMode env")
         (auto simp: authenticate_def resolveProvider_def getAuthProviderForHost_def Let_def)
  qed
qed

lemma deauthorize_default_returnTo:
  assumes "isAuthenticated req" "req_user req = Some u"
    and "query_host req = Some host" "host \<noteq> []"
    and "hostContextProvider_get env host = Some ap"
    and "userService_deauthorize env u (authProviderId ap) = None"
    and "\<not> truthy (query_returnTo req)"
  shows "last (external (deauthorize cfg env req)) = Redirect (asDashboard cfg)"
  using deauthorize_success[OF assms(1-6), of cfg] or_else_default[OF assms(7)]
  by simp

lemma authorize_requires_returnTo:
  assumes "has_session req" "isAuthenticated req" "req_user req \<noteq> None"
    and "\<not> truthy (query_returnTo req)"
  shows "external (authorize cfg env req) =
           fst (resolveProvider env (or_else (query_host req) [])) @
           [Redirect (getSorryUrl cfg msg_bad_request)]"
proof (cases "resolveProvider env (or_else (query_host req) [])")
  case (Pair lookup authProvider)
  have "external lookup = lookup"
    using Pair
    by (auto simp: resolveProvider_def getAuthProviderForHost_def external_def
          split: if_splits)
  moreover obtain u where "req_user req = Some u"
    using assms(3) by auto
  ultimately show ?thesis
    using assms(1,2,4) Pair
    by (simp add: authorize_def deny_def Let_def external_def)
qed

text \<open>
  Claim C8, as amended. In the login flow and in the deauthorize flow an unspecified (or
  empty) returnTo defaults to the dashboard URL. In the authorize flow returnTo is
  required: when it is unspecified or empty, the flow ends with the bad-request denial
  redirect, before any policy check.
\<close>

theorem returnTo_default_or_required:
  "(\<not> isAuthenticated req \<and> login_permitted cfg env req \<and> \<not> truthy (query_returnTo req) \<longrightarrow>
      AttachAuthFlow \<lparr>flow_host = or_else (query_host req) [],
         flow_returnTo = asDashboard cfg, overrideScopes = None\<rparr>
      \<in> set (authenticate cfg env req))
   \<and> (isAuthenticated req \<and> req_user req = Some u \<and> query_host req = Some host \<and> host \<noteq> [] \<and>
       hostContextProvider_get env host = Some ap \<and>
       userService_deauthorize env u (authProviderId ap) = None \<and>
       \<not> truthy (query_returnTo req) \<longrightarrow>
         last (external (deauthorize cfg env req)) = Redirect (asDashboard cfg))
   \<and> (has_session req \<and> isAuthenticated req \<and> req_user req \<noteq> None \<and>
       \<not> truthy (query_returnTo req) \<longrightarrow>
         external (authorize cfg env req) =
           fst (resolveProvider env (or_else (query_host req) [])) @
           [Redirect (getSorryUrl cfg msg_bad_request)])"
proof (intro conjI impI)
  assume "\<not> isAuthenticated req \<and> login_permitted cfg env req \<and> \<not> truthy (query_returnTo req)"
  then show "AttachAuthFlow \<lparr>flow_host = or_else (query_host req) [],
         flow_returnTo = asDashboard cfg, overrideScopes = None\<rparr>
      \<in> set (authenticate cfg env req)"
    by (simp add: login_default_returnTo)
next
  assume "isAuthenticated req \<and> req_user req = Some u \<and> query_host req = Some host \<and> host \<noteq> [] \<and>
       hostContextProvider_get env host = Some ap \<and>
       userService_deauthorize env u (authProviderId ap) = None \<and>
       \<not> truthy (query_returnTo req)"
  then show "last (external (deauthorize cfg env req)) = Redirect (asDashboard cfg)"
    by (elim conjE) (rule deauthorize_default_returnTo)
next
  assume "has_session req \<and> isAuthenticated req \<and> req_user req \<noteq> None \<and>
       \<not> truthy (query_returnTo req)"
  then show "external (authorize cfg env req) =
           fst (resolveProvider env (or_else (query_host req) [])) @
           [Redirect (getSorryUrl cfg msg_bad_request)]"
    by (elim conjE) (rule authorize_requires_returnTo)
qed

theorem returnTo_default_or_required_witness:
  "AttachAuthFlow \<lparr>flow_host = ''github.com'',
      flow_returnTo = ''https://gitpod.example/workspaces'', overrideScopes = None\<rparr>
     \<in> set (authenticate sample_config sample_collaborators sample_request)
   \<and> last (external (deauthorize sample_config sample_collaborators sample_user_request)) =
       Redirect ''https://gitpod.example/workspaces''
   \<and> external (authorize sample_config sample_collaborators sample_user_request) =
       [GetHostContext ''github.com'', Redirect (getSorryUrl sample_config msg_bad_request)]"
proof -
  let ?u = "\<lparr>user_id = ''u1''\<rparr>"
  note t = returnTo_default_or_required[where cfg = sample_config and env = sample_collaborators]
  have a: "\<not> isAuthenticated sample_request
           \<and> login_permitted sample_config sample_collaborators sample_request
           \<and> \<not> truthy (query_returnTo sample_request)"
    by (simp add: sample_request_def login_permitted_def sample_collaborators_def
          sample_provider_def sample_config_def organization_bound_def truthy_def or_else_def)
  have b: "isAuthenticated sample_user_request \<and> req_user sample_user_request = Some ?u \<and>
           query_host sample_user_request = Some ''github.com'' \<and> ''github.com'' \<noteq> [] \<and>
           hostContextProvider_get sample_collaborators ''github.com'' = Some sample_provider \<and>
           userService_deauthorize sample_collaborators ?u (authProviderId sample_provider) = None \<and>
           \<not> truthy (query_returnTo sample_user_request)"
    by (simp add: sample_user_request_def sample_collaborators_def sample_provider_def truthy_def)
  have c: "has_session sample_user_request \<and> isAuthenticated sample_user_request \<and>
           req_user sample_user_request \<noteq> None \<and> \<not> truthy (query_returnTo sample_user_request)"
    by (simp add: sample_user_request_def truthy_def)
  have r1: "AttachAuthFlow \<lparr>flow_host = or_else (query_host sample_request) [],
         flow_returnTo = asDashboard sample_config, overrideScopes = None\<rparr>
      \<in> set (authenticate sample_config sample_collaborators sample_request)"
    using t[where req = sample_request, THEN conjunct1] a by (rule mp)
  have r2: "last (external (deauthorize sample_config sample_collaborators sample_user_request)) =
          Redirect (asDashboard sample_config)"
    using t[where req = sample_user_request and u = ?u and host = "''github.com''"
              and ap = sample_provider, THEN conjunct2, THEN conjunct1] b by (rule mp)
  have r3: "external (authorize sample_config sample_collaborators sample_user_request) =
           fst (resolveProvider sample_collaborators (or_else (query_host sample_user_request) [])) @
           [Redirect (getSorryUrl sample_config msg_bad_request)]"
    using t[where req = sample_user_request, THEN conjunct2, THEN conjunct2] c by (rule mp)
  have e1: "or_else (query_host sample_request) [] = ''github.com''"
    by (simp add: sample_request_def or_else_def)
  have e2: "asDashboard sample_config = ''https://gitpod.example/workspaces''"
    by (simp add: sample_config_def)
  have e3: "fst (resolveProvider sample_collaborators
                   (or_else (query_host sample_user_request) [])) = [GetHostContext ''github.com'']"
    by (simp add: sample_user_request_def or_else_def resolveProvider_def
          getAuthProviderForHost_def)
  from r1 r2 r3 show ?thesis unfolding e1 e2 e3 by simp
qed

text \<open>
  Claim C8, as stated, fails for the authorize flow: an authenticated request with a
  session and a resolvable host, but without returnTo, is answered with the bad-request
  denial redirect instead of proceeding with the dashboard URL.
\<close>

theorem authorize_without_returnTo_counterexample:
  "has_session sample_user_request \<and> isAuthenticated sample_user_request
   \<and> req_user sample_user_request = Some \<lparr>user_id = ''u1''\<rparr>
   \<and> query_returnTo sample_user_request = None
   \<and> query_host sample_user_request = Some ''github.com''
   \<and> hostContextProvider_get sample_collaborators ''github.com'' = Some sample_provider
   \<and> authorize sample_config sample_collaborators sample_user_request =
       [GetHostContext ''github.com'', LogInfo ''Bad request: missing parameters.'',
        Redirect (getSorryUrl sample_config ''Bad request: missing parameters.'')]"
  by (simp add: authorize_def sample_user_request_def sample_collaborators_def deny_def
        resolveProvider_def getAuthProviderForHost_def msg_bad_request_def truthy_def
        or_else_def Let_def)

end
